theory Spec2Isabelle
  imports Main "HOL-Library.Sublist"
begin

section \<open>JavaScript values used by \<open>src/server/utils/email.ts\<close>\<close>

text \<open>
  A JavaScript \<open>number\<close> as far as this program looks at it: ports are compared with
  \<open>===\<close> against the literals 465 and 587 and are otherwise only passed on. \<open>Num n\<close>
  is the double whose value is the integer \<open>n\<close> (\<open>Num 0\<close> stands for both zeros, which
  \<open>===\<close> does not tell apart); \<open>NaN\<close> is what \<open>parseInt\<close> and \<open>Number\<close> give for text
  that is not a number; the two infinities are what \<open>parseInt\<close> gives for a run of
  digits beyond the range of a double. Fractions are left out: \<open>parseInt\<close> returns
  none.
\<close>

datatype number = Num int | NaN | Infinity | MinusInfinity

text \<open>
  \<open>a === b\<close> on numbers: \<open>NaN\<close> equals nothing, not even itself, and an infinity
  equals only itself.
\<close>

fun strict_eq :: "number \<Rightarrow> number \<Rightarrow> bool" where
  "strict_eq (Num a) (Num b) = (a = b)"
| "strict_eq Infinity Infinity = True"
| "strict_eq MinusInfinity MinusInfinity = True"
| "strict_eq _ _ = False"

text \<open>
  A thrown value. \<open>Error m ps\<close> is an object for which \<open>instanceof Error\<close> holds, with
  \<open>message\<close> \<open>m\<close> and the further own properties \<open>ps\<close> that a library attaches
  (nodemailer: \<open>code\<close>, \<open>command\<close>, \<open>response\<close>, \<open>responseCode\<close>); \<open>new Error(m)\<close> is
  \<open>Error m []\<close>. \<open>NonError v\<close> is any other thrown value.
\<close>

datatype thrown = Error string "(string \<times> string) list" | NonError string

text \<open>
  A value of type \<open>string | undefined\<close> is a \<open>string option\<close>. It is falsy when it is
  \<open>undefined\<close> or the empty string.
\<close>

fun truthy :: "string option \<Rightarrow> bool" where
  "truthy None = False"
| "truthy (Some s) = (s \<noteq> [])"

text \<open>\<open>a || b\<close>: the left operand when it is truthy, the right one otherwise.\<close>

definition or_else :: "string option \<Rightarrow> string option \<Rightarrow> string option" where
  "or_else a b = (if truthy a then a else b)"

text \<open>\<open>${v}\<close> in a template literal: \<open>undefined\<close> prints as the word.\<close>

fun template :: "string option \<Rightarrow> string" where
  "template None = ''undefined''"
| "template (Some s) = s"

text \<open>\<open>xs.join(sep)\<close> on an array of strings.\<close>

fun join :: "string \<Rightarrow> string list \<Rightarrow> string" where
  "join sep [] = []"
| "join sep [x] = x"
| "join sep (x # y # ys) = x @ sep @ join sep (y # ys)"

subsection \<open>\<open>parseInt(s, 10)\<close>\<close>

text \<open>
  Strings are sequences of bytes (UTF-8). On a text of ASCII characters
  \<open>parseInt(s, 10)\<close> skips the leading white space and line terminators (of the
  characters it skips, the ASCII ones are exactly the six below), reads one sign,
  then the longest run of decimal digits. No digit gives \<open>NaN\<close>; whatever follows the
  digits is ignored; the result is the double nearest to the signed value of the
  run.
\<close>

definition isWhiteSpace :: "char \<Rightarrow> bool" where
  "isWhiteSpace c = (c \<in> {CHR '' '', CHR 0x09, CHR 0x0A, CHR 0x0B, CHR 0x0C, CHR 0x0D})"

definition isDigit :: "char \<Rightarrow> bool" where
  "isDigit c = (48 \<le> (of_char c :: nat) \<and> (of_char c :: nat) \<le> 57)"

definition digitValue :: "char \<Rightarrow> int" where
  "digitValue c = int (of_char c :: nat) - 48"

fun digitsValue :: "int \<Rightarrow> string \<Rightarrow> int" where
  "digitsValue acc [] = acc"
| "digitsValue acc (c # cs) = digitsValue (10 * acc + digitValue c) cs"

text \<open>The sign and the run of digits that \<open>parseInt\<close> reads in an ASCII text.\<close>

definition scanInt :: "string \<Rightarrow> int \<times> string" where
  "scanInt s =
     (let t = dropWhile isWhiteSpace s;
          sign = (case t of c # _ \<Rightarrow> if c = CHR ''-'' then - 1 else 1 | [] \<Rightarrow> 1);
          u = (case t of c # r \<Rightarrow> if c = CHR ''-'' \<or> c = CHR ''+'' then r else t | [] \<Rightarrow> t)
      in (sign, takeWhile isDigit u))"

text \<open>
  The texts on which the result is computed here: every byte is ASCII, and the run
  of digits is worth less than \<open>2^53\<close>, so that the double is the integer itself (and
  the run has fewer than 20 significant digits, up to which the language fixes the
  result).
\<close>

definition plainInt :: "string \<Rightarrow> bool" where
  "plainInt s =
     (list_all (\<lambda>c. (of_char c :: nat) < 128) s \<and>
      digitsValue 0 (snd (scanInt s)) < 9007199254740992)"

text \<open>
  On every other text (a character beyond ASCII, where the language also skips the
  Unicode spaces, or a run of digits that a double rounds) the result is the one of
  JavaScript's own \<open>parseInt\<close>, which is a parameter: \<open>jsParseInt\<close>.
\<close>

definition parseInt :: "(string \<Rightarrow> number) \<Rightarrow> string \<Rightarrow> number" where
  "parseInt jsParseInt s =
     (if plainInt s then
        (case scanInt s of
           (sign, z) \<Rightarrow> if z = [] then NaN else Num (sign * digitsValue 0 z))
      else jsParseInt s)"

section \<open>The data model\<close>

text \<open>
  \<open>process.env\<close>: a variable is a string or is not set.
\<close>

type_synonym env = "string \<Rightarrow> string option"

text \<open>The interface \<open>EmailConfig\<close>: the options handed to nodemailer.\<close>

record tls_options =
  rejectUnauthorized :: "bool option"

record auth_options =
  user :: string
  pass :: string

record EmailConfig =
  host :: "string option"
  port :: "number option"
  secure :: "bool option"
  requireTLS :: "bool option"
  auth :: "auth_options option"
  service :: "string option"
  tls :: "tls_options option"
  logger :: "bool option"
  debug :: "bool option"
  connectionTimeout :: "number option"
  greetingTimeout :: "number option"
  socketTimeout :: "number option"

text \<open>
  The interface \<open>IntegrationEmailConfig\<close>. The four string fields are declared
  \<open>string\<close>; the HTTP route fills them from the request body unchecked, so at run
  time each may be \<open>undefined\<close>, which \<open>None\<close> stands for.
\<close>

record IntegrationEmailConfig =
  smtp_host :: "string option"
  smtp_port :: number
  smtp_user :: "string option"
  smtp_password :: "string option"
  smtp_secure :: "bool option"
  from_email :: "string option"
  from_name :: "string option"

section \<open>\<open>createTransporter\<close>\<close>

definition missing_fields_message :: string where
  "missing_fields_message = ''Invalid integration config: missing required SMTP fields''"

definition invalid_host_message :: "string \<Rightarrow> string" where
  \<open>invalid_host_message h =
     ''Invalid SMTP Host: "'' @ h @
     ''" is an email address. Use server address like "smtp.gmail.com"''\<close>

definition missing_env_message :: string where
  "missing_env_message =
     ''Email configuration is missing. Please set EMAIL_USER and EMAIL_PASSWORD in .env''"

text \<open>
  \<open>nodemailer.createTransport(config)\<close> builds the transporter object around the
  options and opens no connection; the transporter is identified with its options.
  The result of \<open>createTransporter\<close> is \<open>Inl\<close> of what it throws or \<open>Inr\<close> of the
  transporter. The three tests of line 41 are \<open>!x\<close> on a string: \<open>undefined\<close> and the
  empty string fail them. Its first argument is JavaScript's \<open>parseInt\<close>, consulted
  for the texts of \<open>EMAIL_PORT\<close> that \<open>plainInt\<close> leaves out; the second is the
  environment.
\<close>

definition createTransporter ::
    "(string \<Rightarrow> number) \<Rightarrow> env \<Rightarrow> IntegrationEmailConfig option \<Rightarrow> thrown + EmailConfig" where
  "createTransporter jsParseInt e integrationConfig =
     (case integrationConfig of
        Some ic \<Rightarrow>
          (case (smtp_host ic, smtp_user ic, smtp_password ic) of
             (Some h, Some u, Some p) \<Rightarrow>
               if h = [] \<or> u = [] \<or> p = [] then Inl (Error missing_fields_message [])
               else if CHR ''@'' \<in> set h then Inl (Error (invalid_host_message h) [])
               else
                 let prt = smtp_port ic;
                     (sec, req) =
                       (if strict_eq prt (Num 465) then (True, None)
                        else if strict_eq prt (Num 587) then (False, Some True)
                        else
                          let s = (case smtp_secure ic of Some b \<Rightarrow> b | None \<Rightarrow> False)
                          in (s, if s then None else Some True))
                 in Inr \<lparr> host = Some h, port = Some prt, secure = Some sec,
                          requireTLS = req,
                          auth = Some \<lparr> user = u, pass = p \<rparr>,
                          service = None, tls = None,
                          logger = Some True, debug = Some True,
                          connectionTimeout = Some (Num 10000),
                          greetingTimeout = Some (Num 5000),
                          socketTimeout = Some (Num 10000) \<rparr>
           | _ \<Rightarrow> Inl (Error missing_fields_message []))
      | None \<Rightarrow>
          let emailService = e ''EMAIL_SERVICE'';
              emailHost = e ''EMAIL_HOST'';
              emailPort = parseInt jsParseInt (template (or_else (e ''EMAIL_PORT'') (Some ''587'')));
              emailUser = e ''EMAIL_USER'';
              emailPassword = e ''EMAIL_PASSWORD''
          in
          (case (emailUser, emailPassword) of
             (Some u, Some p) \<Rightarrow>
               if u = [] \<or> p = [] then Inl (Error missing_env_message [])
               else
                 let config = \<lparr> host = None, port = None, secure = None,
                          requireTLS = None,
                          auth = Some \<lparr> user = u, pass = p \<rparr>,
                          service = None, tls = None,
                          logger = Some True, debug = Some True,
                          connectionTimeout = Some (Num 10000),
                          greetingTimeout = Some (Num 5000),
                          socketTimeout = Some (Num 10000) \<rparr>
                 in
                 if truthy emailService then Inr (config \<lparr> service := emailService \<rparr>)
                 else if truthy emailHost then
                   Inr (config \<lparr> host := emailHost, port := Some emailPort,
                          secure := Some (strict_eq emailPort (Num 465)) \<rparr>)
                 else Inr (config \<lparr> service := Some ''gmail'' \<rparr>)
           | _ \<Rightarrow> Inl (Error missing_env_message [])))"

section \<open>\<open>sendEmail\<close>\<close>

text \<open>\<open>string | string[]\<close>: one address, or an array of addresses.\<close>

datatype recipients = Single string | Many "string list"

record attachment =
  filename :: string
  path :: "string option"
  content :: "string option"
  contentType :: "string option"

text \<open>
  The interface \<open>SendEmailOptions\<close>. \<open>from\<close> and \<open>text\<close> are keywords of Isabelle: the
  fields are \<open>from_addr\<close> and \<open>text_body\<close>. \<open>to\<close> and \<open>subject\<close> are declared
  required; the HTTP route passes the request body's values on unchecked, so each
  may be \<open>undefined\<close> at run time.
\<close>

record SendEmailOptions =
  from_addr :: "string option"
  fromName :: "string option"
  integrationConfig :: "IntegrationEmailConfig option"
  to :: "recipients option"
  subject :: "string option"
  text_body :: "string option"
  html :: "string option"
  cc :: "recipients option"
  bcc :: "recipients option"
  attachments :: "attachment list option"

text \<open>The object literal \<open>mailOptions\<close> of lines 158 to 167.\<close>

record MailOptions =
  mail_from :: string
  mail_to :: "string option"
  mail_subject :: "string option"
  mail_text :: "string option"
  mail_html :: "string option"
  mail_cc :: "string option"
  mail_bcc :: "string option"
  mail_attachments :: "attachment list option"

text \<open>
  The outside world: what \<open>transporter.sendMail(mailOptions)\<close> and
  \<open>transporter.verify()\<close> settle with, for each transporter. A rejected promise is
  \<open>Inl\<close> of the rejection, which \<open>await\<close> throws. The calls made are recorded as
  events, in order.
\<close>

record network =
  sendMail :: "EmailConfig \<Rightarrow> MailOptions \<Rightarrow> thrown + unit"
  verify :: "EmailConfig \<Rightarrow> thrown + unit"

datatype net_event = SendMailCall EmailConfig MailOptions | VerifyCall EmailConfig

text \<open>Lines 149 to 156: the local variables \<open>fromEmail\<close> and \<open>fromName\<close>.\<close>

definition fromEmail_of :: "env \<Rightarrow> SendEmailOptions \<Rightarrow> string option" where
  "fromEmail_of e options =
     (case integrationConfig options of
        Some ic \<Rightarrow> or_else (from_addr options) (from_email ic)
      | None \<Rightarrow>
          or_else (or_else (or_else (from_addr options) (e ''EMAIL_FROM'')) (e ''EMAIL_USER''))
            (Some ''noreply@anquest.com''))"

definition fromName_of :: "env \<Rightarrow> SendEmailOptions \<Rightarrow> string option" where
  "fromName_of e options =
     (case integrationConfig options of
        Some ic \<Rightarrow> or_else (or_else (fromName options) (from_name ic)) (Some ''aNquest+'')
      | None \<Rightarrow> or_else (or_else (fromName options) (e ''EMAIL_FROM_NAME'')) (Some ''aNquest+''))"

text \<open>Line 159: the template literal of the sender header.\<close>

definition from_header :: "string option \<Rightarrow> string option \<Rightarrow> string" where
  \<open>from_header nm em = ''"'' @ template nm @ ''" <'' @ template em @ ''>''\<close>

text \<open>
  Line 160, and lines 164 and 165 (the same expression on \<open>cc\<close> and on \<open>bcc\<close>). An array
  is truthy also when it is empty; a string is truthy when it is not empty.
\<close>

definition to_field :: "recipients option \<Rightarrow> string option" where
  "to_field r =
     (case r of
        Some (Many xs) \<Rightarrow> Some (join '', '' xs)
      | Some (Single s) \<Rightarrow> Some s
      | None \<Rightarrow> None)"

definition cc_field :: "recipients option \<Rightarrow> string option" where
  "cc_field r =
     (case r of
        Some (Many xs) \<Rightarrow> Some (join '', '' xs)
      | Some (Single s) \<Rightarrow> if s \<noteq> [] then Some s else None
      | None \<Rightarrow> None)"

definition mailOptions_of :: "env \<Rightarrow> SendEmailOptions \<Rightarrow> MailOptions" where
  "mailOptions_of e options =
     \<lparr> mail_from = from_header (fromName_of e options) (fromEmail_of e options),
       mail_to = to_field (to options),
       mail_subject = subject options,
       mail_text = text_body options,
       mail_html = or_else (html options) (text_body options),
       mail_cc = cc_field (cc options),
       mail_bcc = cc_field (bcc options),
       mail_attachments = attachments options \<rparr>"

text \<open>The body of the \<open>try\<close> block: the result and the network calls made.\<close>

definition sendEmail_try ::
    "(string \<Rightarrow> number) \<Rightarrow> env \<Rightarrow> network \<Rightarrow> SendEmailOptions \<Rightarrow> (thrown + unit) \<times> net_event list" where
  "sendEmail_try jsParseInt e net options =
     (case createTransporter jsParseInt e (integrationConfig options) of
        Inl err \<Rightarrow> (Inl err, [])
      | Inr transporter \<Rightarrow>
          let mailOptions = mailOptions_of e options
          in (sendMail net transporter mailOptions, [SendMailCall transporter mailOptions]))"

text \<open>The \<open>catch\<close> clause of line 171: the error it throws for the one it caught.\<close>

definition sendEmail_catch :: "thrown \<Rightarrow> thrown" where
  "sendEmail_catch err =
     Error (''Failed to send email: '' @
              (case err of Error m ps \<Rightarrow> m | NonError v \<Rightarrow> ''Unknown error'')) []"

definition sendEmail ::
    "(string \<Rightarrow> number) \<Rightarrow> env \<Rightarrow> network \<Rightarrow> SendEmailOptions \<Rightarrow> (thrown + unit) \<times> net_event list" where
  "sendEmail jsParseInt e net options =
     (case sendEmail_try jsParseInt e net options of
        (Inl err, evs) \<Rightarrow> (Inl (sendEmail_catch err), evs)
      | (Inr u, evs) \<Rightarrow> (Inr u, evs))"

section \<open>\<open>verifyEmailConfig\<close>\<close>

text \<open>
  The result is \<open>Inl\<close> of what the function throws or \<open>Inr\<close> of the boolean it
  returns, with the network calls made.
\<close>

definition verifyEmailConfig ::
    "(string \<Rightarrow> number) \<Rightarrow> env \<Rightarrow> network \<Rightarrow> (thrown + bool) \<times> net_event list" where
  "verifyEmailConfig jsParseInt e net =
     (case createTransporter jsParseInt e None of
        Inl err \<Rightarrow> (Inr False, [])
      | Inr transporter \<Rightarrow>
          (case verify net transporter of
             Inl err \<Rightarrow> (Inr False, [VerifyCall transporter])
           | Inr u \<Rightarrow> (Inr True, [VerifyCall transporter])))"

section \<open>The route \<open>POST /api/send-email\<close>\<close>






section \<open>Example inputs\<close>

text \<open>
  Concrete inputs at which the theorems below are evaluated: an integration config
  that passes validation, a request that uses it, an environment for the fallback
  path, a network on which every call succeeds and one on which every call is
  refused with a nodemailer-style error.
\<close>

definition example_config :: IntegrationEmailConfig where
  "example_config =
     \<lparr> smtp_host = Some ''smtp.example.com'', smtp_port = Num 2525,
       smtp_user = Some ''bot'', smtp_password = Some ''secret'',
       smtp_secure = None, from_email = Some ''bot@example.com'',
       from_name = Some ''Example Bot'' \<rparr>"

definition example_options :: SendEmailOptions where
  "example_options =
     \<lparr> from_addr = None, fromName = Some ''Alice'',
       integrationConfig = Some example_config,
       to = Some (Many [''a@x.com'', ''b@x.com'']),
       subject = Some ''Hello'', text_body = Some ''Hi there'', html = None,
       cc = None, bcc = None, attachments = None \<rparr>"

definition example_env :: env where
  "example_env =
     Map.empty(''EMAIL_USER'' \<mapsto> ''bot@example.com'', ''EMAIL_PASSWORD'' \<mapsto> ''secret'',
       ''EMAIL_HOST'' \<mapsto> ''smtp.example.com'')"

text \<open>
  A stand-in for JavaScript's \<open>parseInt\<close>: the port texts of the examples are plain,
  so it is never consulted.
\<close>

definition any_parseInt :: "string \<Rightarrow> number" where
  "any_parseInt s = NaN"

definition accepting_network :: network where
  "accepting_network = \<lparr> sendMail = (\<lambda>t m. Inr ()), verify = (\<lambda>t. Inr ()) \<rparr>"

definition refusing_network :: network where
  "refusing_network =
     \<lparr> sendMail = (\<lambda>t m. Inl (Error ''connect ECONNREFUSED 127.0.0.1:2525''
                                  [(''code'', ''ESOCKET''), (''command'', ''CONN'')])),
       verify = (\<lambda>t. Inl (Error ''connect ECONNREFUSED 127.0.0.1:2525''
                                  [(''code'', ''ESOCKET''), (''command'', ''CONN'')])) \<rparr>"


section \<open>Facts about the JavaScript operators\<close>

lemma parseInt_587: "parseInt pI ''587'' = Num 587"
  by (simp add: parseInt_def plainInt_def scanInt_def isWhiteSpace_def isDigit_def digitValue_def)

lemma parseInt_465: "parseInt pI ''465'' = Num 465"
  by (simp add: parseInt_def plainInt_def scanInt_def isWhiteSpace_def isDigit_def digitValue_def)

lemma parseInt_plain:
  "plainInt s \<Longrightarrow>
     parseInt pI s =
       (if snd (scanInt s) = [] then NaN
        else Num (fst (scanInt s) * digitsValue 0 (snd (scanInt s))))"
  by (simp add: parseInt_def split: prod.splits)

lemma truthy_iff: "truthy v \<longleftrightarrow> (\<exists>s. v = Some s \<and> s \<noteq> [])"
  by (cases v) auto

lemma or_else_falsy: "\<not> truthy a \<Longrightarrow> or_else a b = b"
  by (simp add: or_else_def)

lemma strict_eq_Num: "strict_eq n (Num k) \<longleftrightarrow> n = Num k"
  by (cases n) auto

lemma join_concat: "join sep (x # ys) = x @ concat (map ((@) sep) ys)"
  by (induction ys arbitrary: x) auto

section \<open>What \<open>createTransporter\<close> returns, branch by branch\<close>

lemma createTransporter_missing:
  assumes "\<not> truthy (smtp_host ic) \<or> \<not> truthy (smtp_user ic) \<or> \<not> truthy (smtp_password ic)"
  shows "createTransporter pI e (Some ic) = Inl (Error missing_fields_message [])"
  using assms by (auto simp: createTransporter_def split: option.splits)

lemma createTransporter_at_host:
  assumes "smtp_host ic = Some h" and "CHR ''@'' \<in> set h"
    and "truthy (smtp_user ic)" and "truthy (smtp_password ic)"
  shows "createTransporter pI e (Some ic) = Inl (Error (invalid_host_message h) [])"
  using assms by (auto simp: createTransporter_def truthy_iff)

lemma createTransporter_valid:
  assumes "smtp_host ic = Some h" and "h \<noteq> []" and "CHR ''@'' \<notin> set h"
    and "smtp_user ic = Some u" and "u \<noteq> []"
    and "smtp_password ic = Some p" and "p \<noteq> []"
  shows "createTransporter pI e (Some ic) =
     Inr \<lparr> host = Some h, port = Some (smtp_port ic),
           secure = Some (if smtp_port ic = Num 465 then True
                          else if smtp_port ic = Num 587 then False
                          else (case smtp_secure ic of Some b \<Rightarrow> b | None \<Rightarrow> False)),
           requireTLS = (if smtp_port ic = Num 465 then None
                         else if smtp_port ic = Num 587 then Some True
                         else if (case smtp_secure ic of Some b \<Rightarrow> b | None \<Rightarrow> False) then None
                         else Some True),
           auth = Some \<lparr> user = u, pass = p \<rparr>,
           service = None, tls = None,
           logger = Some True, debug = Some True,
           connectionTimeout = Some (Num 10000),
           greetingTimeout = Some (Num 5000),
           socketTimeout = Some (Num 10000) \<rparr>"
  using assms
  by (simp add: createTransporter_def strict_eq_Num Let_def split: option.splits)

lemma createTransporter_env_missing:
  assumes "\<not> truthy (e ''EMAIL_USER'') \<or> \<not> truthy (e ''EMAIL_PASSWORD'')"
  shows "createTransporter pI e None = Inl (Error missing_env_message [])"
  using assms by (auto simp: createTransporter_def Let_def split: option.splits)

lemma createTransporter_env_valid:
  assumes "e ''EMAIL_USER'' = Some u" and "u \<noteq> []"
    and "e ''EMAIL_PASSWORD'' = Some p" and "p \<noteq> []"
  shows "createTransporter pI e None =
     Inr \<lparr> host = (if truthy (e ''EMAIL_SERVICE'') then None
                    else if truthy (e ''EMAIL_HOST'') then e ''EMAIL_HOST'' else None),
           port = (if truthy (e ''EMAIL_SERVICE'') then None
                    else if truthy (e ''EMAIL_HOST'')
                    then Some (parseInt pI (template (or_else (e ''EMAIL_PORT'') (Some ''587''))))
                    else None),
           secure = (if truthy (e ''EMAIL_SERVICE'') then None
                    else if truthy (e ''EMAIL_HOST'')
                    then Some (parseInt pI (template (or_else (e ''EMAIL_PORT'') (Some ''587''))) = Num 465)
                    else None),
           requireTLS = None,
           auth = Some \<lparr> user = u, pass = p \<rparr>,
           service = (if truthy (e ''EMAIL_SERVICE'') then e ''EMAIL_SERVICE''
                    else if truthy (e ''EMAIL_HOST'') then None else Some ''gmail''),
           tls = None,
           logger = Some True, debug = Some True,
           connectionTimeout = Some (Num 10000),
           greetingTimeout = Some (Num 5000),
           socketTimeout = Some (Num 10000) \<rparr>"
  using assms
  by (simp add: createTransporter_def strict_eq_Num Let_def)

section \<open>What \<open>sendEmail\<close> returns and hands to the transport\<close>

lemma sendEmail_events:
  "snd (sendEmail pI e net opts) =
     (case createTransporter pI e (integrationConfig opts) of
        Inl err \<Rightarrow> []
      | Inr t \<Rightarrow> [SendMailCall t (mailOptions_of e opts)])"
  by (simp add: sendEmail_def sendEmail_try_def Let_def split: sum.splits prod.splits)

lemma sendEmail_result:
  "fst (sendEmail pI e net opts) =
     (case createTransporter pI e (integrationConfig opts) of
        Inl err \<Rightarrow> Inl (sendEmail_catch err)
      | Inr t \<Rightarrow>
          (case sendMail net t (mailOptions_of e opts) of
             Inl err \<Rightarrow> Inl (sendEmail_catch err)
           | Inr u \<Rightarrow> Inr u))"
  by (simp add: sendEmail_def sendEmail_try_def Let_def split: sum.splits prod.splits)

lemma sendEmail_handed:
  assumes "snd (sendEmail pI e net opts) = [SendMailCall t mo]"
  shows "createTransporter pI e (integrationConfig opts) = Inr t \<and> mo = mailOptions_of e opts"
  using assms by (simp add: sendEmail_events split: sum.splits)




section \<open>The example inputs resolve\<close>

lemma example_config_resolves:
  "\<exists>t. createTransporter pI e (Some example_config) = Inr t"
  using createTransporter_valid [of example_config "''smtp.example.com''" "''bot''" "''secret''" pI e]
  by (simp add: example_config_def)

lemma example_env_resolves:
  "\<exists>t. createTransporter any_parseInt example_env None = Inr t"
  using createTransporter_env_valid [of example_env "''bot@example.com''" "''secret''"]
  by (simp add: example_env_def)

lemma example_options_handed:
  "\<exists>t. snd (sendEmail pI e net example_options) = [SendMailCall t (mailOptions_of e example_options)]"
proof -
  obtain t where "createTransporter pI e (integrationConfig example_options) = Inr t"
    using example_config_resolves [of pI e] by (auto simp: example_options_def)
  then show ?thesis
    by (simp add: sendEmail_events)
qed

section \<open>The claims about the transport resolver\<close>

text \<open>
  Claim C1. An integration config that passes validation (a non-empty host without
  \<open>@\<close>, a non-empty user and password) resolves to a profile, and the profile's
  security fields follow the port: 465 gives \<open>secure = true\<close> and leaves \<open>requireTLS\<close>
  unset; 587 gives \<open>secure = false\<close> and \<open>requireTLS = true\<close>; any other port (\<open>NaN\<close>
  among them) takes \<open>secure\<close> from \<open>smtp_secure\<close>, false when that is absent, and sets
  \<open>requireTLS = true\<close> exactly when \<open>secure\<close> is false, leaving it unset otherwise.
\<close>


theorem createTransporter_port_security:
  assumes "smtp_host ic = Some h" and "h \<noteq> []" and "CHR ''@'' \<notin> set h"
    and "truthy (smtp_user ic)" and "truthy (smtp_password ic)"
  shows "\<exists>t. createTransporter pI e (Some ic) = Inr t \<and>
    (smtp_port ic = Num 465 \<longrightarrow> secure t = Some True \<and> requireTLS t = None) \<and>
    (smtp_port ic = Num 587 \<longrightarrow> secure t = Some False \<and> requireTLS t = Some True) \<and>
    (smtp_port ic \<noteq> Num 465 \<and> smtp_port ic \<noteq> Num 587 \<longrightarrow>
       secure t = Some (case smtp_secure ic of Some b \<Rightarrow> b | None \<Rightarrow> False) \<and>
       requireTLS t = (if secure t = Some False then Some True else None))"
proof -
  from assms(4) obtain u where u: "smtp_user ic = Some u" "u \<noteq> []"
    by (auto simp: truthy_iff)
  from assms(5) obtain p where p: "smtp_password ic = Some p" "p \<noteq> []"
    by (auto simp: truthy_iff)
  note r = createTransporter_valid [OF assms(1-3) u p, of pI e]
  show ?thesis
    unfolding r by (simp split: option.splits)
qed

theorem createTransporter_port_security_witness:
  "\<exists>t. createTransporter any_parseInt Map.empty
      (Some \<lparr> smtp_host = Some ''smtp.example.com'', smtp_port = Num 2525,
              smtp_user = Some ''bot'', smtp_password = Some ''secret'',
              smtp_secure = None, from_email = Some ''bot@example.com'',
              from_name = None \<rparr>) = Inr t
     \<and> secure t = Some False \<and> requireTLS t = Some True"
  using createTransporter_port_security
    [of "\<lparr> smtp_host = Some ''smtp.example.com'', smtp_port = Num 2525,
              smtp_user = Some ''bot'', smtp_password = Some ''secret'',
              smtp_secure = None, from_email = Some ''bot@example.com'',
              from_name = None \<rparr>" "''smtp.example.com''" any_parseInt Map.empty]
  by auto

text \<open>
  Claim C3. An integration config whose \<open>smtp_host\<close>, \<open>smtp_user\<close> or \<open>smtp_password\<close>
  is empty or absent makes \<open>createTransporter\<close> throw the error of line 42, whose
  message ends in "missing required SMTP fields": no transporter is produced, and
  \<open>sendEmail\<close> on such a config fails without a single call to the network.
\<close>


theorem createTransporter_missing_required_fields:
  assumes "\<not> truthy (smtp_host ic) \<or> \<not> truthy (smtp_user ic) \<or> \<not> truthy (smtp_password ic)"
  shows "createTransporter pI e (Some ic) =
           Inl (Error ''Invalid integration config: missing required SMTP fields'' []) \<and>
         sendEmail pI e net (opts \<lparr> integrationConfig := Some ic \<rparr>) =
           (Inl (Error ''Failed to send email: Invalid integration config: missing required SMTP fields'' []), [])"
proof -
  have c: "createTransporter pI e (Some ic) = Inl (Error missing_fields_message [])"
    using assms by (rule createTransporter_missing)
  have "sendEmail pI e net (opts \<lparr> integrationConfig := Some ic \<rparr>) =
      (Inl (sendEmail_catch (Error missing_fields_message [])), [])"
    by (simp add: sendEmail_def sendEmail_try_def c)
  with c show ?thesis
    by (simp add: sendEmail_catch_def missing_fields_message_def)
qed

theorem createTransporter_missing_required_fields_witness:
  "createTransporter any_parseInt Map.empty
      (Some \<lparr> smtp_host = Some ''smtp.example.com'', smtp_port = Num 587,
              smtp_user = Some ''bot'', smtp_password = None,
              smtp_secure = None, from_email = Some ''bot@example.com'',
              from_name = None \<rparr>) =
     Inl (Error ''Invalid integration config: missing required SMTP fields'' [])"
  using createTransporter_missing_required_fields
    [of "\<lparr> smtp_host = Some ''smtp.example.com'', smtp_port = Num 587,
              smtp_user = Some ''bot'', smtp_password = None,
              smtp_secure = None, from_email = Some ''bot@example.com'',
              from_name = None \<rparr>" any_parseInt Map.empty]
  by simp

lemma invalid_host_message_shape:
  "sublist h (invalid_host_message h) \<and> sublist ''smtp.gmail.com'' (invalid_host_message h)"
proof -
  have split: \<open>invalid_host_message h =
      (''Invalid SMTP Host: "'' @ h @ ''" is an email address. Use server address like "'')
        @ ''smtp.gmail.com'' @ ''"''\<close>
    by (simp add: invalid_host_message_def)
  have "sublist ''smtp.gmail.com'' (invalid_host_message h)"
    unfolding split by (rule sublist_appendI)
  moreover have "sublist h (invalid_host_message h)"
    unfolding invalid_host_message_def by (rule sublist_appendI)
  ultimately show ?thesis by simp
qed

text \<open>
  Claim C2, as stated, fails: the test for missing fields comes first (line 41), so
  a host with \<open>@\<close> next to an empty user is reported by the error of line 42, whose
  message does not name the host.
\<close>


theorem createTransporter_host_with_at_counterexample:
  "createTransporter any_parseInt Map.empty
      (Some \<lparr> smtp_host = Some ''me@example.com'', smtp_port = Num 587,
              smtp_user = Some '''', smtp_password = Some ''secret'',
              smtp_secure = None, from_email = Some ''me@example.com'',
              from_name = None \<rparr>) =
     Inl (Error ''Invalid integration config: missing required SMTP fields'' [])
   \<and> \<not> sublist ''me@example.com'' ''Invalid integration config: missing required SMTP fields''"
proof -
  have "\<not> sublist ''me@example.com'' ''Invalid integration config: missing required SMTP fields''"
    by code_simp
  then show ?thesis
    by (simp add: createTransporter_def missing_fields_message_def)
qed

text \<open>
  Claim C2, amended. An integration config whose \<open>smtp_host\<close> contains \<open>@\<close> never
  resolves, whatever the other fields are, and \<open>sendEmail\<close> on it makes no call to the
  network. When \<open>smtp_user\<close> and \<open>smtp_password\<close> are both non-empty the error is the
  one of line 47, whose message names the offending host and suggests the shape
  \<open>smtp.gmail.com\<close>; when one of them is empty or absent it is the error of line 42.
\<close>


theorem createTransporter_host_with_at:
  assumes "smtp_host ic = Some h" and "CHR ''@'' \<in> set h"
  shows "createTransporter pI e (Some ic) =
           Inl (Error (if truthy (smtp_user ic) \<and> truthy (smtp_password ic)
                       then invalid_host_message h else missing_fields_message) []) \<and>
         sublist h (invalid_host_message h) \<and>
         sublist ''smtp.gmail.com'' (invalid_host_message h) \<and>
         snd (sendEmail pI e net (opts \<lparr> integrationConfig := Some ic \<rparr>)) = []"
proof -
  have c: "createTransporter pI e (Some ic) =
           Inl (Error (if truthy (smtp_user ic) \<and> truthy (smtp_password ic)
                       then invalid_host_message h else missing_fields_message) [])"
  proof (cases "truthy (smtp_user ic) \<and> truthy (smtp_password ic)")
    case True
    then show ?thesis
      using createTransporter_at_host [OF assms, of pI e] by simp
  next
    case False
    then have "\<not> truthy (smtp_host ic) \<or> \<not> truthy (smtp_user ic) \<or> \<not> truthy (smtp_password ic)"
      by blast
    from createTransporter_missing [OF this, of pI e] False show ?thesis
      by auto
  qed
  have "snd (sendEmail pI e net (opts \<lparr> integrationConfig := Some ic \<rparr>)) = []"
    by (simp add: sendEmail_events c)
  with c invalid_host_message_shape [of h] show ?thesis
    by blast
qed

theorem createTransporter_host_with_at_witness:
  "createTransporter any_parseInt Map.empty
      (Some \<lparr> smtp_host = Some ''me@example.com'', smtp_port = Num 587,
              smtp_user = Some ''me'', smtp_password = Some ''secret'',
              smtp_secure = None, from_email = Some ''me@example.com'',
              from_name = None \<rparr>) =
     Inl (Error (invalid_host_message ''me@example.com'') [])"
  using createTransporter_host_with_at
    [of "\<lparr> smtp_host = Some ''me@example.com'', smtp_port = Num 587,
              smtp_user = Some ''me'', smtp_password = Some ''secret'',
              smtp_secure = None, from_email = Some ''me@example.com'',
              from_name = None \<rparr>" "''me@example.com''" any_parseInt Map.empty]
  by simp

text \<open>
  Claim C4. Without an integration config the resolver reads the environment. It
  throws the error of line 91, which asks for \<open>EMAIL_USER\<close> and \<open>EMAIL_PASSWORD\<close>, when
  either is unset or empty. Otherwise it resolves: a non-empty \<open>EMAIL_SERVICE\<close> is used
  as the named service whether or not \<open>EMAIL_HOST\<close> is set; with no service, a
  non-empty \<open>EMAIL_HOST\<close> gives the explicit-host mode; with neither, the service is
  \<open>gmail\<close>. In the explicit-host mode the port is 587 when \<open>EMAIL_PORT\<close> is unset or
  empty; for a plain text (ASCII, worth less than \<open>2^53\<close>) it is the signed value of
  the digits the text starts with, \<open>NaN\<close> when there are none, so 465 for \<open>465\<close>; for
  any other text it is what JavaScript's \<open>parseInt\<close> returns. In every case \<open>secure\<close>
  is true exactly when the port is 465.
\<close>

theorem createTransporter_environment:
  "(\<not> truthy (e ''EMAIL_USER'') \<or> \<not> truthy (e ''EMAIL_PASSWORD'') \<longrightarrow>
      createTransporter pI e None =
        Inl (Error ''Email configuration is missing. Please set EMAIL_USER and EMAIL_PASSWORD in .env'' [])) \<and>
   (truthy (e ''EMAIL_USER'') \<and> truthy (e ''EMAIL_PASSWORD'') \<longrightarrow>
      (\<exists>t. createTransporter pI e None = Inr t \<and>
         (truthy (e ''EMAIL_SERVICE'') \<longrightarrow>
            service t = e ''EMAIL_SERVICE'' \<and> host t = None \<and> port t = None \<and> secure t = None) \<and>
         (\<not> truthy (e ''EMAIL_SERVICE'') \<and> truthy (e ''EMAIL_HOST'') \<longrightarrow>
            service t = None \<and> host t = e ''EMAIL_HOST'' \<and>
            (\<not> truthy (e ''EMAIL_PORT'') \<longrightarrow> port t = Some (Num 587)) \<and>
            (\<forall>s. e ''EMAIL_PORT'' = Some s \<and> s \<noteq> [] \<and> plainInt s \<longrightarrow>
               port t = Some (if snd (scanInt s) = [] then NaN
                              else Num (fst (scanInt s) * digitsValue 0 (snd (scanInt s))))) \<and>
            (\<forall>s. e ''EMAIL_PORT'' = Some s \<and> s \<noteq> [] \<and> \<not> plainInt s \<longrightarrow>
               port t = Some (pI s)) \<and>
            (e ''EMAIL_PORT'' = Some ''465'' \<longrightarrow> port t = Some (Num 465) \<and> secure t = Some True) \<and>
            secure t = Some (port t = Some (Num 465))) \<and>
         (\<not> truthy (e ''EMAIL_SERVICE'') \<and> \<not> truthy (e ''EMAIL_HOST'') \<longrightarrow>
            service t = Some ''gmail'' \<and> host t = None \<and> port t = None \<and> secure t = None)))"
proof (cases "truthy (e ''EMAIL_USER'') \<and> truthy (e ''EMAIL_PASSWORD'')")
  case False
  then have "\<not> truthy (e ''EMAIL_USER'') \<or> \<not> truthy (e ''EMAIL_PASSWORD'')"
    by simp
  from createTransporter_env_missing [OF this] False show ?thesis
    by (simp add: missing_env_message_def)
next
  case True
  then obtain u p where u: "e ''EMAIL_USER'' = Some u" "u \<noteq> []"
    and p: "e ''EMAIL_PASSWORD'' = Some p" "p \<noteq> []"
    by (auto simp: truthy_iff)
  note r = createTransporter_env_valid [OF u p]
  define prt where "prt = parseInt pI (template (or_else (e ''EMAIL_PORT'') (Some ''587'')))"
  have unset: "\<not> truthy (e ''EMAIL_PORT'') \<Longrightarrow> prt = Num 587"
    unfolding prt_def by (simp add: or_else_falsy parseInt_587)
  have given: "prt = parseInt pI s" if "e ''EMAIL_PORT'' = Some s" and "s \<noteq> []" for s
    unfolding prt_def using that by (simp add: or_else_def)
  have plain: "prt = (if snd (scanInt s) = [] then NaN
                      else Num (fst (scanInt s) * digitsValue 0 (snd (scanInt s))))"
    if "e ''EMAIL_PORT'' = Some s" and "s \<noteq> []" and "plainInt s" for s
    using given [OF that(1,2)] that(3) by (simp add: parseInt_plain)
  have other: "prt = pI s"
    if "e ''EMAIL_PORT'' = Some s" and "s \<noteq> []" and "\<not> plainInt s" for s
    using given [OF that(1,2)] that(3) by (simp add: parseInt_def)
  have p465: "prt = Num 465" if "e ''EMAIL_PORT'' = Some ''465''"
    using given [OF that] by (simp add: parseInt_465)
  show ?thesis
    unfolding r prt_def [symmetric] using True unset plain other p465 by auto
qed

theorem createTransporter_environment_witness:
  "(\<exists>t. createTransporter any_parseInt example_env None = Inr t
       \<and> host t = Some ''smtp.example.com'' \<and> service t = None
       \<and> port t = Some (Num 587) \<and> secure t = Some False) \<and>
   (\<exists>t. createTransporter any_parseInt (example_env(''EMAIL_PORT'' \<mapsto> ''465'')) None = Inr t
       \<and> host t = Some ''smtp.example.com'' \<and> service t = None
       \<and> port t = Some (Num 465) \<and> secure t = Some True)"
proof -
  have "\<exists>t. createTransporter any_parseInt example_env None = Inr t
       \<and> host t = Some ''smtp.example.com'' \<and> service t = None
       \<and> port t = Some (Num 587) \<and> secure t = Some False"
    using createTransporter_environment [of example_env any_parseInt]
    by (auto simp: example_env_def)
  moreover have "\<exists>t. createTransporter any_parseInt (example_env(''EMAIL_PORT'' \<mapsto> ''465'')) None = Inr t
       \<and> host t = Some ''smtp.example.com'' \<and> service t = None
       \<and> port t = Some (Num 465) \<and> secure t = Some True"
    using createTransporter_environment [of "example_env(''EMAIL_PORT'' \<mapsto> ''465'')" any_parseInt]
    by (auto simp: example_env_def)
  ultimately show ?thesis
    by (intro conjI)
qed

text \<open>
  Claim C7. Every profile the resolver returns, from an integration config or from
  the environment, has \<open>connectionTimeout = 10000\<close>, \<open>greetingTimeout = 5000\<close> and
  \<open>socketTimeout = 10000\<close>: no environment and no config gives other values.
\<close>


theorem createTransporter_fixed_timeouts:
  assumes "createTransporter pI e c = Inr t"
  shows "connectionTimeout t = Some (Num 10000) \<and> greetingTimeout t = Some (Num 5000)
     \<and> socketTimeout t = Some (Num 10000)"
proof (cases c)
  case None
  with assms have "\<not> (\<not> truthy (e ''EMAIL_USER'') \<or> \<not> truthy (e ''EMAIL_PASSWORD''))"
    using createTransporter_env_missing [of e pI] by auto
  then obtain u p where "e ''EMAIL_USER'' = Some u" "u \<noteq> []"
    and "e ''EMAIL_PASSWORD'' = Some p" "p \<noteq> []"
    by (auto simp: truthy_iff)
  from createTransporter_env_valid [OF this] assms None show ?thesis
    by auto
next
  case (Some ic)
  with assms have ok: "\<not> (\<not> truthy (smtp_host ic) \<or> \<not> truthy (smtp_user ic) \<or> \<not> truthy (smtp_password ic))"
    using createTransporter_missing [of ic pI e] by auto
  then obtain h u p where h: "smtp_host ic = Some h" "h \<noteq> []"
    and u: "smtp_user ic = Some u" "u \<noteq> []"
    and p: "smtp_password ic = Some p" "p \<noteq> []"
    by (auto simp: truthy_iff)
  have "CHR ''@'' \<notin> set h"
  proof
    assume "CHR ''@'' \<in> set h"
    with h ok have "createTransporter pI e (Some ic) = Inl (Error (invalid_host_message h) [])"
      by (intro createTransporter_at_host) simp_all
    with assms Some show False by simp
  qed
  from createTransporter_valid [OF h this u p, of pI e] assms Some show ?thesis
    by auto
qed

theorem createTransporter_fixed_timeouts_witness:
  "(\<exists>t. createTransporter any_parseInt example_env None = Inr t
      \<and> connectionTimeout t = Some (Num 10000) \<and> greetingTimeout t = Some (Num 5000)
      \<and> socketTimeout t = Some (Num 10000)) \<and>
   (\<exists>t. createTransporter any_parseInt example_env (Some example_config) = Inr t
      \<and> connectionTimeout t = Some (Num 10000) \<and> greetingTimeout t = Some (Num 5000)
      \<and> socketTimeout t = Some (Num 10000))"
proof -
  obtain t1 where t1: "createTransporter any_parseInt example_env None = Inr t1"
    using example_env_resolves by (elim exE)
  obtain t2 where t2: "createTransporter any_parseInt example_env (Some example_config) = Inr t2"
    using example_config_resolves [of any_parseInt example_env] by (elim exE)
  from createTransporter_fixed_timeouts [OF t1] createTransporter_fixed_timeouts [OF t2] t1 t2
  show ?thesis
    by (intro conjI exI [of _ t1] exI [of _ t2]) simp_all
qed

section \<open>The claims about the mail dispatcher\<close>

text \<open>
  Claim C5. In the message handed to the transport, \<open>to\<close>, \<open>cc\<close> and \<open>bcc\<close> are
  normalised: a single address (a non-empty string) is passed on as it is; an array
  of addresses is joined with \<open>", "\<close>, that is the first address followed by each
  further one behind a \<open>", "\<close>, in the array's order, so that
  \<open>["a@x.com", "b@x.com"]\<close> becomes \<open>"a@x.com, b@x.com"\<close>; \<open>cc\<close> and \<open>bcc\<close> that are not
  provided, be they absent or the empty string, are \<open>undefined\<close> in the message, not
  the empty string.
\<close>


theorem sendEmail_recipients:
  assumes "snd (sendEmail pI e net opts) = [SendMailCall t mo]"
  shows "(\<forall>a. to opts = Some (Single a) \<longrightarrow> mail_to mo = Some a) \<and>
    (\<forall>xs. to opts = Some (Many xs) \<longrightarrow> mail_to mo = Some (join '', '' xs)) \<and>
    (to opts = Some (Many [''a@x.com'', ''b@x.com'']) \<longrightarrow> mail_to mo = Some ''a@x.com, b@x.com'') \<and>
    (cc opts = None \<longrightarrow> mail_cc mo = None) \<and>
    (cc opts = Some (Single []) \<longrightarrow> mail_cc mo = None) \<and>
    (\<forall>a. cc opts = Some (Single a) \<and> a \<noteq> [] \<longrightarrow> mail_cc mo = Some a) \<and>
    (\<forall>xs. cc opts = Some (Many xs) \<longrightarrow> mail_cc mo = Some (join '', '' xs)) \<and>
    (bcc opts = None \<longrightarrow> mail_bcc mo = None) \<and>
    (bcc opts = Some (Single []) \<longrightarrow> mail_bcc mo = None) \<and>
    (\<forall>a. bcc opts = Some (Single a) \<and> a \<noteq> [] \<longrightarrow> mail_bcc mo = Some a) \<and>
    (\<forall>xs. bcc opts = Some (Many xs) \<longrightarrow> mail_bcc mo = Some (join '', '' xs)) \<and>
    (\<forall>x ys. join '', '' (x # ys) = x @ concat (map ((@) '', '') ys))"
proof -
  from sendEmail_handed [OF assms] have mo: "mo = mailOptions_of e opts"
    by simp
  have j: "\<forall>x ys. join '', '' (x # ys) = x @ concat (map ((@) '', '') ys)"
    by (intro allI join_concat)
  have t: "mail_to mo = to_field (to opts)"
    and c: "mail_cc mo = cc_field (cc opts)"
    and b: "mail_bcc mo = cc_field (bcc opts)"
    unfolding mo by (simp_all add: mailOptions_of_def)
  show ?thesis
    unfolding t c b using j by (simp add: to_field_def cc_field_def)
qed

theorem sendEmail_recipients_witness:
  "\<exists>t mo. snd (sendEmail any_parseInt example_env accepting_network example_options) = [SendMailCall t mo]
     \<and> mail_to mo = Some ''a@x.com, b@x.com'' \<and> mail_cc mo = None \<and> mail_bcc mo = None"
proof -
  obtain t mo where h: "snd (sendEmail any_parseInt example_env accepting_network example_options) = [SendMailCall t mo]"
    using example_options_handed by blast
  have given: "to example_options = Some (Many [''a@x.com'', ''b@x.com''])"
    "cc example_options = None" "bcc example_options = None"
    by (simp_all add: example_options_def)
  have "mail_to mo = Some ''a@x.com, b@x.com''" and "mail_cc mo = None" and "mail_bcc mo = None"
    using sendEmail_recipients [OF h] by (simp_all add: given)
  with h show ?thesis
    by (intro exI conjI)
qed

text \<open>
  Claim C6. The sender header of the message handed to the transport is
  \<open>"name" <email>\<close>. A non-empty \<open>fromName\<close> of the request is the name on both code
  paths; without it the name is the config's non-empty \<open>from_name\<close> on the
  integration path and a non-empty \<open>EMAIL_FROM_NAME\<close> on the environment path, and
  \<open>aNquest+\<close> when that is missing too. A non-empty \<open>from\<close> of the request is the
  email; without it the email is the config's \<open>from_email\<close> on the integration path,
  and on the environment path \<open>EMAIL_FROM\<close> when non-empty, else \<open>EMAIL_USER\<close> (which
  is non-empty whenever the environment resolved).
\<close>


theorem sendEmail_sender_precedence:
  assumes "snd (sendEmail pI e net opts) = [SendMailCall t mo]"
  shows \<open>\<exists>nm em. mail_from mo = ''"'' @ nm @ ''" <'' @ em @ ''>'' \<and>
    (\<forall>n. fromName opts = Some n \<and> n \<noteq> [] \<longrightarrow> nm = n) \<and>
    (\<not> truthy (fromName opts) \<longrightarrow>
       (\<forall>ic. integrationConfig opts = Some ic \<longrightarrow>
          (\<forall>n. from_name ic = Some n \<and> n \<noteq> [] \<longrightarrow> nm = n) \<and>
          (\<not> truthy (from_name ic) \<longrightarrow> nm = ''aNquest+'')) \<and>
       (integrationConfig opts = None \<longrightarrow>
          (\<forall>n. e ''EMAIL_FROM_NAME'' = Some n \<and> n \<noteq> [] \<longrightarrow> nm = n) \<and>
          (\<not> truthy (e ''EMAIL_FROM_NAME'') \<longrightarrow> nm = ''aNquest+''))) \<and>
    (\<forall>a. from_addr opts = Some a \<and> a \<noteq> [] \<longrightarrow> em = a) \<and>
    (\<not> truthy (from_addr opts) \<longrightarrow>
       (\<forall>ic. integrationConfig opts = Some ic \<longrightarrow> em = template (from_email ic)) \<and>
       (integrationConfig opts = None \<longrightarrow>
          (\<forall>a. e ''EMAIL_FROM'' = Some a \<and> a \<noteq> [] \<longrightarrow> em = a) \<and>
          (\<not> truthy (e ''EMAIL_FROM'') \<longrightarrow> e ''EMAIL_USER'' = Some em \<and> em \<noteq> [])))\<close>
proof -
  from sendEmail_handed [OF assms]
  have ct: "createTransporter pI e (integrationConfig opts) = Inr t"
    and mo: "mo = mailOptions_of e opts"
    by simp_all
  have usr: "truthy (e ''EMAIL_USER'')" if "integrationConfig opts = None"
  proof (rule ccontr)
    assume "\<not> truthy (e ''EMAIL_USER'')"
    then have "createTransporter pI e None = Inl (Error missing_env_message [])"
      by (simp add: createTransporter_env_missing)
    with ct that show False by simp
  qed
  define nm where "nm = template (fromName_of e opts)"
  define em where "em = template (fromEmail_of e opts)"
  have hdr: \<open>mail_from mo = ''"'' @ nm @ ''" <'' @ em @ ''>''\<close>
    unfolding mo nm_def em_def by (simp add: mailOptions_of_def from_header_def)
  have n1: "\<forall>n. fromName opts = Some n \<and> n \<noteq> [] \<longrightarrow> nm = n"
    unfolding nm_def by (auto simp: fromName_of_def or_else_def split: option.splits)
  have n2: "\<not> truthy (fromName opts) \<longrightarrow>
       (\<forall>ic. integrationConfig opts = Some ic \<longrightarrow>
          (\<forall>n. from_name ic = Some n \<and> n \<noteq> [] \<longrightarrow> nm = n) \<and>
          (\<not> truthy (from_name ic) \<longrightarrow> nm = ''aNquest+'')) \<and>
       (integrationConfig opts = None \<longrightarrow>
          (\<forall>n. e ''EMAIL_FROM_NAME'' = Some n \<and> n \<noteq> [] \<longrightarrow> nm = n) \<and>
          (\<not> truthy (e ''EMAIL_FROM_NAME'') \<longrightarrow> nm = ''aNquest+''))"
    unfolding nm_def by (auto simp: fromName_of_def or_else_def)
  have e1: "\<forall>a. from_addr opts = Some a \<and> a \<noteq> [] \<longrightarrow> em = a"
    unfolding em_def by (auto simp: fromEmail_of_def or_else_def split: option.splits)
  have e2: "\<not> truthy (from_addr opts) \<longrightarrow>
       (\<forall>ic. integrationConfig opts = Some ic \<longrightarrow> em = template (from_email ic)) \<and>
       (integrationConfig opts = None \<longrightarrow>
          (\<forall>a. e ''EMAIL_FROM'' = Some a \<and> a \<noteq> [] \<longrightarrow> em = a) \<and>
          (\<not> truthy (e ''EMAIL_FROM'') \<longrightarrow> e ''EMAIL_USER'' = Some em \<and> em \<noteq> []))"
    unfolding em_def using usr
    by (cases "e ''EMAIL_USER''") (auto simp: fromEmail_of_def or_else_def)
  show ?thesis
  proof (intro exI conjI)
    show \<open>mail_from mo = ''"'' @ nm @ ''" <'' @ em @ ''>''\<close> by (rule hdr)
  qed (rule n1 n2 e1 e2)+
qed

theorem sendEmail_sender_precedence_witness:
  \<open>\<exists>t mo. snd (sendEmail any_parseInt example_env accepting_network example_options) = [SendMailCall t mo]
     \<and> mail_from mo = ''"Alice" <bot@example.com>''\<close>
proof -
  obtain t mo where h: "snd (sendEmail any_parseInt example_env accepting_network example_options) = [SendMailCall t mo]"
    using example_options_handed by blast
  have given: "fromName example_options = Some ''Alice''" "from_addr example_options = None"
    "integrationConfig example_options = Some example_config"
    "from_email example_config = Some ''bot@example.com''"
    by (simp_all add: example_options_def example_config_def)
  have \<open>mail_from mo = ''"Alice" <bot@example.com>''\<close>
    using sendEmail_sender_precedence [OF h] by (simp add: given)
  with h show ?thesis
    by (intro exI conjI)
qed

text \<open>
  Claim C8. Whatever the \<open>try\<close> block of \<open>sendEmail\<close> throws, be it the error of
  \<open>createTransporter\<close> or the rejection of \<open>sendMail\<close>, the caller gets one error
  \<open>new Error(...)\<close> with no further property: its message is
  \<open>Failed to send email: \<close> followed by the message of the caught error when that is
  an \<open>Error\<close>, and by \<open>Unknown error\<close> when it is not.
\<close>


theorem sendEmail_rewraps_failures:
  assumes "createTransporter pI e (integrationConfig opts) = Inl err \<or>
      (\<exists>t. createTransporter pI e (integrationConfig opts) = Inr t \<and>
           sendMail net t (mailOptions_of e opts) = Inl err)"
  shows "(\<forall>m ps. err = Error m ps \<longrightarrow>
            fst (sendEmail pI e net opts) = Inl (Error (''Failed to send email: '' @ m) [])) \<and>
         (\<forall>v. err = NonError v \<longrightarrow>
            fst (sendEmail pI e net opts) = Inl (Error ''Failed to send email: Unknown error'' [])) \<and>
         (\<exists>m. fst (sendEmail pI e net opts) = Inl (Error m []))"
proof -
  have r: "fst (sendEmail pI e net opts) = Inl (sendEmail_catch err)"
    using assms by (auto simp: sendEmail_result)
  show ?thesis
    unfolding r by (cases err) (simp_all add: sendEmail_catch_def)
qed

theorem sendEmail_rewraps_failures_witness:
  "fst (sendEmail any_parseInt example_env refusing_network example_options) =
     Inl (Error ''Failed to send email: connect ECONNREFUSED 127.0.0.1:2525'' [])"
proof -
  obtain t where t: "createTransporter any_parseInt example_env (integrationConfig example_options) = Inr t"
    using example_config_resolves [of any_parseInt example_env] by (auto simp: example_options_def)
  have "sendMail refusing_network t (mailOptions_of example_env example_options) =
      Inl (Error ''connect ECONNREFUSED 127.0.0.1:2525'' [(''code'', ''ESOCKET''), (''command'', ''CONN'')])"
    by (simp add: refusing_network_def)
  with t have "createTransporter any_parseInt example_env (integrationConfig example_options) =
        Inl (Error ''connect ECONNREFUSED 127.0.0.1:2525'' [(''code'', ''ESOCKET''), (''command'', ''CONN'')]) \<or>
      (\<exists>t. createTransporter any_parseInt example_env (integrationConfig example_options) = Inr t \<and>
           sendMail refusing_network t (mailOptions_of example_env example_options) =
             Inl (Error ''connect ECONNREFUSED 127.0.0.1:2525'' [(''code'', ''ESOCKET''), (''command'', ''CONN'')]))"
    by simp
  from sendEmail_rewraps_failures [OF this] show ?thesis
    by simp
qed

text \<open>
  Claim C9. \<open>verifyEmailConfig\<close> never throws: it returns a boolean for every
  environment and every network. It returns \<open>true\<close> exactly when the environment
  resolves to a transporter and that transporter's \<open>verify\<close> succeeds, and \<open>false\<close>
  on every failure of either; the only network call it makes is \<open>verify\<close> on the
  environment's transporter, never \<open>sendMail\<close>; with a credential missing it
  returns \<open>false\<close> without any network call.
\<close>


theorem verifyEmailConfig_never_throws:
  "(\<exists>b. fst (verifyEmailConfig pI e net) = Inr b) \<and>
   (fst (verifyEmailConfig pI e net) = Inr True \<longleftrightarrow>
      (\<exists>t. createTransporter pI e None = Inr t \<and> verify net t = Inr ())) \<and>
   (fst (verifyEmailConfig pI e net) = Inr False \<longleftrightarrow>
      (\<exists>err. createTransporter pI e None = Inl err) \<or>
      (\<exists>t err. createTransporter pI e None = Inr t \<and> verify net t = Inl err)) \<and>
   (\<forall>ev \<in> set (snd (verifyEmailConfig pI e net)).
      \<exists>t. ev = VerifyCall t \<and> createTransporter pI e None = Inr t) \<and>
   (\<not> truthy (e ''EMAIL_USER'') \<or> \<not> truthy (e ''EMAIL_PASSWORD'') \<longrightarrow>
      verifyEmailConfig pI e net = (Inr False, []))"
proof (cases "createTransporter pI e None")
  case (Inl err)
  moreover have "\<not> truthy (e ''EMAIL_USER'') \<or> \<not> truthy (e ''EMAIL_PASSWORD'') \<longrightarrow>
      createTransporter pI e None = Inl (Error missing_env_message [])"
    by (simp add: createTransporter_env_missing)
  ultimately show ?thesis
    by (auto simp: verifyEmailConfig_def)
next
  case (Inr t)
  moreover have "\<not> (\<not> truthy (e ''EMAIL_USER'') \<or> \<not> truthy (e ''EMAIL_PASSWORD''))"
  proof
    assume "\<not> truthy (e ''EMAIL_USER'') \<or> \<not> truthy (e ''EMAIL_PASSWORD'')"
    then have "createTransporter pI e None = Inl (Error missing_env_message [])"
      by (rule createTransporter_env_missing)
    with Inr show False by simp
  qed
  ultimately show ?thesis
    by (cases "verify net t") (auto simp: verifyEmailConfig_def)
qed

theorem verifyEmailConfig_never_throws_witness:
  "verifyEmailConfig any_parseInt Map.empty accepting_network = (Inr False, []) \<and>
   fst (verifyEmailConfig any_parseInt example_env refusing_network) = Inr False \<and>
   fst (verifyEmailConfig any_parseInt example_env accepting_network) = Inr True"
proof -
  have a: "verifyEmailConfig any_parseInt Map.empty accepting_network = (Inr False, [])"
    using verifyEmailConfig_never_throws [of any_parseInt Map.empty accepting_network] by simp
  obtain t where t: "createTransporter any_parseInt example_env None = Inr t"
    using example_env_resolves by blast
  have "verify refusing_network t = Inl (Error ''connect ECONNREFUSED 127.0.0.1:2525''
          [(''code'', ''ESOCKET''), (''command'', ''CONN'')])"
    by (simp add: refusing_network_def)
  with t have b: "fst (verifyEmailConfig any_parseInt example_env refusing_network) = Inr False"
    using verifyEmailConfig_never_throws [of any_parseInt example_env refusing_network] by simp
  have "verify accepting_network t = Inr ()"
    by (simp add: accepting_network_def)
  with t have c: "fst (verifyEmailConfig any_parseInt example_env accepting_network) = Inr True"
    using verifyEmailConfig_never_throws [of any_parseInt example_env accepting_network] by simp
  from a b c show ?thesis by (intro conjI)
qed



end
